theory Spec2Isabelle
  imports Complex_Main
begin

section \<open>The redirect service of \<open>function_app.py\<close>\<close>

text \<open>
  The service answers every request with a temporary redirect to the destination that
  is configured for the request's host. The destination is read from Azure Table
  Storage and remembered in a process-wide dictionary for \<open>_CACHE_TTL\<close> seconds.

  Conventions of the model.
  \<^item> A Python \<open>str\<close> is a \<open>string\<close>; a character stands for a code point below 256
    (ASCII and Latin-1).
  \<^item> A Python \<open>float\<close> holding a time stamp is a \<open>real\<close>: the model does not round.
  \<^item> \<open>None\<close> where a string is expected is the \<open>None\<close> of \<open>string option\<close>.
  \<^item> An exception is a value of \<open>exn\<close>; a call that may raise returns \<open>exn + 'a\<close>.
  \<^item> The module's globals (\<open>_cache\<close>, \<open>_table_client\<close>) are fields of \<open>state\<close>, which
    every function takes and returns. What the process does to the outside (reading the
    clock, calling the table service, logging) is appended to \<open>trace\<close>, in order.
  \<^item> What the outside answers is the record \<open>externals\<close>.
\<close>

subsection \<open>String operations of Python\<close>

definition ascii_lowercase :: string where
  "ascii_lowercase = ''abcdefghijklmnopqrstuvwxyz''"

definition ascii_uppercase :: string where
  "ascii_uppercase = ''ABCDEFGHIJKLMNOPQRSTUVWXYZ''"

definition digits :: string where
  "digits = ''0123456789''"

text \<open>The capital letters of Latin-1 (U+00C0 to U+00DE without the multiplication sign
  U+00D7) and their small letters, 32 code points higher.\<close>

definition latin1_uppercase :: string where
  "latin1_uppercase =
     [CHR 0xC0, CHR 0xC1, CHR 0xC2, CHR 0xC3, CHR 0xC4, CHR 0xC5, CHR 0xC6, CHR 0xC7,
      CHR 0xC8, CHR 0xC9, CHR 0xCA, CHR 0xCB, CHR 0xCC, CHR 0xCD, CHR 0xCE, CHR 0xCF,
      CHR 0xD0, CHR 0xD1, CHR 0xD2, CHR 0xD3, CHR 0xD4, CHR 0xD5, CHR 0xD6,
      CHR 0xD8, CHR 0xD9, CHR 0xDA, CHR 0xDB, CHR 0xDC, CHR 0xDD, CHR 0xDE]"

definition latin1_lowercase :: string where
  "latin1_lowercase =
     [CHR 0xE0, CHR 0xE1, CHR 0xE2, CHR 0xE3, CHR 0xE4, CHR 0xE5, CHR 0xE6, CHR 0xE7,
      CHR 0xE8, CHR 0xE9, CHR 0xEA, CHR 0xEB, CHR 0xEC, CHR 0xED, CHR 0xEE, CHR 0xEF,
      CHR 0xF0, CHR 0xF1, CHR 0xF2, CHR 0xF3, CHR 0xF4, CHR 0xF5, CHR 0xF6,
      CHR 0xF8, CHR 0xF9, CHR 0xFA, CHR 0xFB, CHR 0xFC, CHR 0xFD, CHR 0xFE]"

definition lower_char :: "char \<Rightarrow> char" where
  "lower_char c =
     (case map_of (zip (ascii_uppercase @ latin1_uppercase)
                       (ascii_lowercase @ latin1_lowercase)) c of
        Some l \<Rightarrow> l
      | None \<Rightarrow> c)"

text \<open>\<open>s.lower()\<close>\<close>

definition lower :: "string \<Rightarrow> string" where
  "lower s = map lower_char s"

text \<open>\<open>s.split(sep)[0]\<close> for a separator of one character: the text before the first
  separator, the whole string when there is none.\<close>

definition split_head :: "char \<Rightarrow> string \<Rightarrow> string" where
  "split_head sep s = takeWhile (\<lambda>c. c \<noteq> sep) s"

text \<open>\<open>s.split(sep, 1)[1]\<close> for a separator of one character that occurs in \<open>s\<close>:
  the text after the first separator. Python raises IndexError when the separator does
  not occur; the only caller tests \<open>sep in s\<close> first, and the model returns the empty
  string there.\<close>

definition split_tail :: "char \<Rightarrow> string \<Rightarrow> string" where
  "split_tail sep s = drop 1 (dropWhile (\<lambda>c. c \<noteq> sep) s)"

text \<open>\<open>s.rstrip(c)\<close> for one character\<close>

definition rstrip :: "char \<Rightarrow> string \<Rightarrow> string" where
  "rstrip c s = rev (dropWhile (\<lambda>x. x = c) (rev s))"

subsection \<open>Exceptions, the outside world and the state of the process\<close>

text \<open>\<open>ResourceNotFoundError\<close> is the one exception class the code names. \<open>KeyError\<close>
  is what \<open>os.environ[...]\<close> raises, \<open>ValueError\<close> what \<open>urlparse\<close> raises;
  \<open>OtherException\<close> is any other subclass of \<open>Exception\<close>.\<close>

datatype exn = ResourceNotFoundError | KeyError | ValueError | OtherException

text \<open>A \<open>TableClient\<close> is known by the arguments it was created with (the credential
  carries no data of the program).\<close>

record TableClient =
  endpoint :: string
  table_name :: string

text \<open>The two fields of \<open>urlparse(...)\<close> that the program reads.\<close>

record ParseResult =
  scheme :: string
  netloc :: string

datatype level = INFO | WARNING | ERROR

datatype event =
    ClockRead real
  | GetEntity TableClient string string
  | Log level string

text \<open>
  \<^item> \<open>CACHE_TTL\<close>: the module constant \<open>_CACHE_TTL\<close>, an \<open>int\<close> read from the environment
    when the module is loaded.
  \<^item> \<open>environ\<close>: \<open>os.environ\<close>.
  \<^item> \<open>time_time n\<close>: what the \<open>n\<close>-th call of \<open>time.time()\<close> returns.
  \<^item> \<open>TableClient_init endpoint table_name\<close>: the constructor call
    \<open>TableClient(endpoint=..., table_name=..., credential=DefaultAzureCredential())\<close>.
  \<^item> \<open>get_entity client partition_key row_key\<close>: the answer of the table service, the
    entity's properties or an exception.
  \<^item> \<open>urlparse\<close>: \<open>urllib.parse.urlparse\<close>.
\<close>

record externals =
  CACHE_TTL :: int
  environ :: "string \<rightharpoonup> string"
  time_time :: "nat \<Rightarrow> real"
  TableClient_init :: "string \<Rightarrow> string \<Rightarrow> exn + TableClient"
  get_entity :: "TableClient \<Rightarrow> string \<Rightarrow> string \<Rightarrow> exn + (string \<rightharpoonup> string)"
  urlparse :: "string \<Rightarrow> exn + ParseResult"

text \<open>
  \<^item> \<open>cache\<close>: \<open>_cache\<close>, from host name to \<open>(redirect_url, timestamp)\<close>.
  \<^item> \<open>table_client\<close>: \<open>_table_client\<close>.
  \<^item> \<open>ticks\<close>: how often the clock has been read.
\<close>

record state =
  cache :: "string \<rightharpoonup> (string option \<times> real)"
  table_client :: "TableClient option"
  ticks :: nat
  trace :: "event list"

definition emit :: "event \<Rightarrow> state \<Rightarrow> state" where
  "emit e s = s\<lparr>trace := trace s @ [e]\<rparr>"

text \<open>\<open>logging.warning\<close>, \<open>logging.error\<close>, \<open>logging.info\<close>; \<open>logging.exception\<close> logs
  at level ERROR.\<close>

definition logging :: "level \<Rightarrow> string \<Rightarrow> state \<Rightarrow> state" where
  "logging l msg s = emit (Log l msg) s"

text \<open>\<open>os.getenv(key, default)\<close>\<close>

definition getenv :: "externals \<Rightarrow> string \<Rightarrow> string \<Rightarrow> string" where
  "getenv ext key dflt = (case environ ext key of None \<Rightarrow> dflt | Some v \<Rightarrow> v)"

subsection \<open>\<open>_get_table_client\<close>\<close>

definition get_table_client :: "externals \<Rightarrow> state \<Rightarrow> (exn + TableClient) \<times> state" where
  "get_table_client ext s =
     (case table_client s of
        Some c \<Rightarrow> (Inr c, s)
      | None \<Rightarrow>
          (case environ ext ''AzureWebJobsStorage__tableServiceUri'' of
             None \<Rightarrow> (Inl KeyError, s)
           | Some ep \<Rightarrow>
               (case TableClient_init ext ep (getenv ext ''REDIRECT_TABLE_NAME'' ''redirects'') of
                  Inl e \<Rightarrow> (Inl e, s)
                | Inr c \<Rightarrow> (Inr c, s\<lparr>table_client := Some c\<rparr>))))"

subsection \<open>\<open>_get_redirect_url\<close>\<close>

text \<open>The body of the \<open>try\<close> block: the client, then its \<open>get_entity\<close> with the host name
  as partition key and the row key \<open>default\<close>, then \<open>entity.get("RedirectUrl")\<close>.\<close>

definition try_lookup :: "externals \<Rightarrow> string \<Rightarrow> state \<Rightarrow> (exn + string option) \<times> state" where
  "try_lookup ext hostname s =
     (case get_table_client ext s of
        (Inl e, s') \<Rightarrow> (Inl e, s')
      | (Inr c, s') \<Rightarrow>
          (let s'' = emit (GetEntity c hostname ''default'') s'
           in case get_entity ext c hostname ''default'' of
                Inl e \<Rightarrow> (Inl e, s'')
              | Inr entity \<Rightarrow> (Inr (entity ''RedirectUrl''), s'')))"

text \<open>From the \<open>try\<close> statement to the end of the function: what is done on a cache miss.
  \<open>now\<close> is the local variable of that name.\<close>

definition lookup_and_cache :: "externals \<Rightarrow> string \<Rightarrow> real \<Rightarrow> state \<Rightarrow> string option \<times> state" where
  "lookup_and_cache ext hostname now s =
     (case try_lookup ext hostname s of
        (Inr redirect_url, s') \<Rightarrow>
          (redirect_url, s'\<lparr>cache := (cache s')(hostname \<mapsto> (redirect_url, now))\<rparr>)
      | (Inl e, s') \<Rightarrow>
          if e = ResourceNotFoundError
          then (let s'' = logging WARNING (''No redirect entry for host '' @ hostname) s'
                in (None, s''\<lparr>cache := (cache s'')(hostname \<mapsto> (None, now))\<rparr>))
          else (None, logging ERROR (''Failed to look up redirect for '' @ hostname) s'))"

text \<open>\<open>now = time.time()\<close>\<close>

definition read_clock :: "externals \<Rightarrow> state \<Rightarrow> real \<times> state" where
  "read_clock ext s =
     (let t = time_time ext (ticks s)
      in (t, emit (ClockRead t) (s\<lparr>ticks := Suc (ticks s)\<rparr>)))"

text \<open>A tuple is true in Python, so \<open>cached and ...\<close> asks that the entry is there.\<close>

definition get_redirect_url :: "externals \<Rightarrow> string \<Rightarrow> state \<Rightarrow> string option \<times> state" where
  "get_redirect_url ext hostname s =
     (case read_clock ext s of
        (now, s1) \<Rightarrow>
          (case cache s1 hostname of
             None \<Rightarrow> lookup_and_cache ext hostname now s1
           | Some (url, ts) \<Rightarrow>
               if now - ts < real_of_int (CACHE_TTL ext) then (url, s1)
               else lookup_and_cache ext hostname now s1))"

subsection \<open>\<open>redirect_handler\<close>\<close>

text \<open>Of \<open>func.HttpRequest\<close>, the attributes the handler reads; of \<open>func.HttpResponse\<close>,
  the arguments the handler passes (a response built without a body has the empty one).
  The route \<open>{*route}\<close>, the methods and the authorisation level of the decorator are
  the framework's: the handler is what runs once a request has been routed to it, with
  the rest of the path in the route parameter \<open>route\<close>.\<close>

record HttpRequest =
  http_method :: string
  url :: string
  headers :: "string \<rightharpoonup> string"
  route_params :: "string \<rightharpoonup> string"

record HttpResponse =
  body :: string
  status_code :: nat
  response_headers :: "(string \<times> string) list"

definition not_found_response :: HttpResponse where
  "not_found_response =
     \<lparr>body = ''Configuration error: redirect url not found.'',
      status_code = 500, response_headers = []\<rparr>"

definition invalid_target_response :: HttpResponse where
  "invalid_target_response =
     \<lparr>body = ''Configuration error: invalid redirect target.'',
      status_code = 500, response_headers = []\<rparr>"

definition redirect_response :: "string \<Rightarrow> HttpResponse" where
  "redirect_response new_url =
     \<lparr>body = [], status_code = 307, response_headers = [(''Location'', new_url)]\<rparr>"

text \<open>The host name of a request, from the \<open>netloc\<close> of its URL:
  \<open>netloc.lower().split(":")[0]\<close>.\<close>

definition hostname_of :: "string \<Rightarrow> string" where
  "hostname_of nl = split_head CHR '':'' (lower nl)"

text \<open>The lines under \<open>Ensure redirect target is a valid URL\<close> down to the second
  \<open>urlparse\<close>: the target, with \<open>https://\<close> in front when \<open>urlparse\<close> finds no scheme
  in it, and the parse of the result.\<close>

definition ensure_scheme :: "externals \<Rightarrow> string \<Rightarrow> exn + (string \<times> ParseResult)" where
  "ensure_scheme ext redirect_url =
     (case urlparse ext redirect_url of
        Inl e \<Rightarrow> Inl e
      | Inr parsed \<Rightarrow>
          if scheme parsed = []
          then (case urlparse ext (''https://'' @ redirect_url) of
                  Inl e \<Rightarrow> Inl e
                | Inr parsed' \<Rightarrow> Inr (''https://'' @ redirect_url, parsed'))
          else Inr (redirect_url, parsed))"

text \<open>The lines under \<open>Build new URL\<close>.\<close>

definition build_new_url :: "string \<Rightarrow> string \<Rightarrow> string \<Rightarrow> string" where
  "build_new_url redirect_url path query =
     rstrip CHR ''/'' redirect_url
       @ (if path \<noteq> [] then ''/'' @ path else [])
       @ (if query \<noteq> [] then ''?'' @ query else [])"

text \<open>The handler from \<open>parsed = urlparse(redirect_url)\<close> on, for a \<open>redirect_url\<close> that is
  neither \<open>None\<close> nor empty.\<close>

definition respond_found :: "externals \<Rightarrow> HttpRequest \<Rightarrow> string \<Rightarrow> string \<Rightarrow> state
    \<Rightarrow> (exn + HttpResponse) \<times> state" where
  "respond_found ext req hostname redirect_url s =
     (case ensure_scheme ext redirect_url of
        Inl e \<Rightarrow> (Inl e, s)
      | Inr (redirect_url', parsed) \<Rightarrow>
          if netloc parsed = []
          then (Inr invalid_target_response,
                logging ERROR (''Invalid redirect URL for host '' @ hostname @ '': ''
                                 @ redirect_url') s)
          else
            (let path = (case route_params req ''route'' of None \<Rightarrow> [] | Some r \<Rightarrow> r);
                 query = (if CHR ''?'' \<in> set (url req) then split_tail CHR ''?'' (url req)
                          else []);
                 new_url = build_new_url redirect_url' path query;
                 user_agent = (case headers req ''User-Agent'' of
                                 None \<Rightarrow> ''Unknown'' | Some ua \<Rightarrow> ua)
             in (Inr (redirect_response new_url),
                 logging INFO (''Redirecting '' @ http_method req @ '' '' @ url req @ '' -> ''
                                 @ new_url @ '' (UA: '' @ user_agent @ '')'') s)))"

text \<open>\<open>not redirect_url\<close> holds for \<open>None\<close> and for the empty string.\<close>

definition redirect_handler :: "externals \<Rightarrow> HttpRequest \<Rightarrow> state
    \<Rightarrow> (exn + HttpResponse) \<times> state" where
  "redirect_handler ext req s =
     (case urlparse ext (url req) of
        Inl e \<Rightarrow> (Inl e, s)
      | Inr p \<Rightarrow>
          (case get_redirect_url ext (hostname_of (netloc p)) s of
             (None, s') \<Rightarrow> (Inr not_found_response, s')
           | (Some redirect_url, s') \<Rightarrow>
               if redirect_url = [] then (Inr not_found_response, s')
               else respond_found ext req (hostname_of (netloc p)) redirect_url s'))"

subsection \<open>\<open>urllib.parse.urlparse\<close> on concrete inputs\<close>

text \<open>
  The theorems below hold for every \<open>urlparse\<close>. Where a concrete request is evaluated,
  \<open>urlparse\<close> is \<open>py_urlparse\<close>, which computes \<open>scheme\<close> and \<open>netloc\<close> the way
  \<open>urlsplit\<close> of CPython 3.12 does:
  \<^item> leading C0 control characters and spaces are dropped, then every tab, carriage
    return and line feed;
  \<^item> the text before the first colon is the scheme (lowercased) when it is not empty,
    starts with an ASCII letter and has only letters, digits, \<open>+\<close>, \<open>-\<close> and \<open>.\<close>;
  \<^item> when what follows starts with \<open>//\<close>, the netloc goes up to the next \<open>/\<close>, \<open>?\<close>
    or \<open>#\<close>;
  \<^item> a netloc with one square bracket and not the other raises \<open>ValueError\<close>.
  The checks of the text between two brackets and of a netloc beyond ASCII are not
  modelled.
\<close>

definition C0_control_or_space :: "char \<Rightarrow> bool" where
  "C0_control_or_space c = ((of_char c :: nat) \<le> 32)"

definition scheme_chars :: string where
  "scheme_chars = ascii_lowercase @ ascii_uppercase @ digits @ ''+-.''"

definition py_urlparse :: "string \<Rightarrow> exn + ParseResult" where
  "py_urlparse url0 =
     (let url1 = dropWhile C0_control_or_space url0;
          url2 = filter (\<lambda>c. c \<notin> {CHR 0x09, CHR 0x0D, CHR 0x0A}) url1;
          pre = takeWhile (\<lambda>c. c \<noteq> CHR '':'') url2;
          has_scheme = (CHR '':'' \<in> set url2 \<and> pre \<noteq> []
                        \<and> hd url2 \<in> set (ascii_lowercase @ ascii_uppercase)
                        \<and> list_all (\<lambda>c. c \<in> set scheme_chars) pre);
          url3 = (if has_scheme then drop (Suc (length pre)) url2 else url2);
          nl = (if take 2 url3 = ''//''
                then takeWhile (\<lambda>c. c \<notin> {CHR ''/'', CHR ''?'', CHR ''#''}) (drop 2 url3)
                else [])
      in if (CHR ''['' \<in> set nl) \<noteq> (CHR '']'' \<in> set nl) then Inl ValueError
         else Inr \<lparr>scheme = (if has_scheme then lower pre else []), netloc = nl\<rparr>)"

subsection \<open>Observations and a concrete deployment\<close>

text \<open>The calls of the table service in a trace, in order: client, partition key,
  row key.\<close>

fun store_calls :: "event list \<Rightarrow> (TableClient \<times> string \<times> string) list" where
  "store_calls [] = []"
| "store_calls (GetEntity c pk rk # es) = (c, pk, rk) # store_calls es"
| "store_calls (ClockRead t # es) = store_calls es"
| "store_calls (Log l m # es) = store_calls es"

text \<open>The negation of the test \<open>cached and (now - cached[1]) < _CACHE_TTL\<close>, for the
  clock reading that the next resolution in state \<open>s\<close> takes.\<close>

definition stale_or_absent :: "externals \<Rightarrow> string \<Rightarrow> state \<Rightarrow> bool" where
  "stale_or_absent ext h s =
     (case cache s h of
        None \<Rightarrow> True
      | Some (v, ts) \<Rightarrow> \<not> time_time ext (ticks s) - ts < real_of_int (CACHE_TTL ext))"

text \<open>A deployment with the default time to live of 300 seconds, the endpoint
  configured, a clock that starts at 1000 and moves 10 seconds with every reading, and
  a table service given as parameter.\<close>

definition example_externals ::
    "(TableClient \<Rightarrow> string \<Rightarrow> string \<Rightarrow> exn + (string \<rightharpoonup> string)) \<Rightarrow> externals" where
  "example_externals service =
     \<lparr>CACHE_TTL = 300,
      environ = [''AzureWebJobsStorage__tableServiceUri'' \<mapsto>
                   ''https://acct.table.core.windows.net''],
      time_time = (\<lambda>n. 1000 + 10 * real n),
      TableClient_init = (\<lambda>ep tn. Inr \<lparr>endpoint = ep, table_name = tn\<rparr>),
      get_entity = service,
      urlparse = py_urlparse\<rparr>"

text \<open>A table with one entity, for the host \<open>old.example.com\<close>; an empty table; a
  service that fails.\<close>

definition service_with ::
    "(string \<rightharpoonup> string) \<Rightarrow> TableClient \<Rightarrow> string \<Rightarrow> string \<Rightarrow> exn + (string \<rightharpoonup> string)" where
  "service_with entity c pk rk =
     (if pk = ''old.example.com'' \<and> rk = ''default'' then Inr entity
      else Inl ResourceNotFoundError)"

definition service_empty ::
    "TableClient \<Rightarrow> string \<Rightarrow> string \<Rightarrow> exn + (string \<rightharpoonup> string)" where
  "service_empty c pk rk = Inl ResourceNotFoundError"

definition service_down ::
    "TableClient \<Rightarrow> string \<Rightarrow> string \<Rightarrow> exn + (string \<rightharpoonup> string)" where
  "service_down c pk rk = Inl OtherException"

text \<open>The process after start, and a process that has one cache entry, for
  \<open>old.example.com\<close>.\<close>

definition initial_state :: state where
  "initial_state = \<lparr>cache = Map.empty, table_client = None, ticks = 0, trace = []\<rparr>"

definition state_with_entry :: "string option \<Rightarrow> real \<Rightarrow> state" where
  "state_with_entry v ts =
     \<lparr>cache = [''old.example.com'' \<mapsto> (v, ts)], table_client = None, ticks = 0,
      trace = []\<rparr>"

text \<open>The client that \<open>_get_table_client\<close> creates in this deployment.\<close>

definition example_client :: TableClient where
  "example_client =
     \<lparr>endpoint = ''https://acct.table.core.windows.net'', table_name = ''redirects''\<rparr>"

text \<open>The same deployment without the variable \<open>AzureWebJobsStorage__tableServiceUri\<close>.\<close>

definition unconfigured_externals :: externals where
  "unconfigured_externals = (example_externals service_empty)\<lparr>environ := Map.empty\<rparr>"

text \<open>A GET request with the given URL and the given value of the route parameter.\<close>

definition example_request :: "string \<Rightarrow> string \<Rightarrow> HttpRequest" where
  "example_request u route =
     \<lparr>http_method = ''GET'', url = u, headers = Map.empty,
      route_params = [''route'' \<mapsto> route]\<rparr>"

subsection \<open>The key of claim C9, from its words\<close>

text \<open>
  The claim describes the key as the host name of the request's authority in lower
  case, without the port. An authority is an optional user information followed by
  \<open>@\<close>, then the host, then an optional colon and port; a host that is an IP literal
  stands in square brackets and holds colons of its own. \<open>spec_host_key\<close> follows
  these words, to be compared with \<open>hostname_of\<close>, which is the code.
  \<^item> \<open>hostinfo\<close>: the authority after its last \<open>@\<close>.
  \<^item> \<open>host_without_port\<close>: a bracketed host up to its closing bracket, any other host
    up to the first colon.
\<close>

definition hostinfo :: "string \<Rightarrow> string" where
  "hostinfo nl = rev (takeWhile (\<lambda>c. c \<noteq> CHR ''@'') (rev nl))"

definition host_without_port :: "string \<Rightarrow> string" where
  "host_without_port hp =
     (if take 1 hp = ''['' \<and> CHR '']'' \<in> set hp
      then takeWhile (\<lambda>c. c \<noteq> CHR '']'') hp @ '']''
      else takeWhile (\<lambda>c. c \<noteq> CHR '':'') hp)"

definition spec_host_key :: "string \<Rightarrow> string" where
  "spec_host_key nl = lower (host_without_port (hostinfo nl))"

section \<open>Properties\<close>

subsection \<open>What each step does to the state\<close>

lemma store_calls_append: "store_calls (xs @ ys) = store_calls xs @ store_calls ys"
  by (induction xs rule: store_calls.induct) simp_all

lemma read_clock_fst: "fst (read_clock ext s) = time_time ext (ticks s)"
  by (simp add: read_clock_def Let_def)

lemma read_clock_snd:
  "snd (read_clock ext s) =
     s\<lparr>ticks := Suc (ticks s), trace := trace s @ [ClockRead (time_time ext (ticks s))]\<rparr>"
  by (simp add: read_clock_def Let_def emit_def)

lemma read_clock_state:
  "cache (snd (read_clock ext s)) = cache s"
  "table_client (snd (read_clock ext s)) = table_client s"
  "ticks (snd (read_clock ext s)) = Suc (ticks s)"
  "trace (snd (read_clock ext s)) = trace s @ [ClockRead (time_time ext (ticks s))]"
  by (simp_all add: read_clock_snd)

lemma get_table_client_state:
  "cache (snd (get_table_client ext s)) = cache s"
  "ticks (snd (get_table_client ext s)) = ticks s"
  "trace (snd (get_table_client ext s)) = trace s"
  by (simp_all add: get_table_client_def split: option.splits sum.splits)

lemma get_table_client_after_clock:
  "fst (get_table_client ext (snd (read_clock ext s))) = fst (get_table_client ext s)"
  by (simp add: get_table_client_def read_clock_snd split: option.splits sum.splits)

lemma get_table_client_cache_update:
  "fst (get_table_client ext (s\<lparr>cache := c\<rparr>)) = fst (get_table_client ext s)"
  by (simp add: get_table_client_def split: option.splits sum.splits)

lemma try_lookup_fst:
  "fst (try_lookup ext h s) =
     (case fst (get_table_client ext s) of
        Inl e \<Rightarrow> Inl e
      | Inr c \<Rightarrow> (case get_entity ext c h ''default'' of
                    Inl e \<Rightarrow> Inl e
                  | Inr entity \<Rightarrow> Inr (entity ''RedirectUrl'')))"
  by (simp add: try_lookup_def Let_def split: prod.splits sum.splits)

lemma try_lookup_after_clock:
  "fst (try_lookup ext h (snd (read_clock ext s))) = fst (try_lookup ext h s)"
  by (simp only: try_lookup_fst get_table_client_after_clock)

lemma try_lookup_cache_update:
  "fst (try_lookup ext h (s\<lparr>cache := c\<rparr>)) = fst (try_lookup ext h s)"
  by (simp only: try_lookup_fst get_table_client_cache_update)

lemma try_lookup_state:
  "cache (snd (try_lookup ext h s)) = cache s"
  "ticks (snd (try_lookup ext h s)) = ticks s"
  "trace (snd (try_lookup ext h s)) =
     trace s @ (case fst (get_table_client ext s) of
                  Inl e \<Rightarrow> []
                | Inr c \<Rightarrow> [GetEntity c h ''default''])"
  using get_table_client_state [of ext s]
  by (auto simp add: try_lookup_def Let_def emit_def split: prod.splits sum.splits)

lemma lookup_and_cache_fst:
  "fst (lookup_and_cache ext h now s) =
     (case fst (try_lookup ext h s) of Inl e \<Rightarrow> None | Inr v \<Rightarrow> v)"
  by (simp add: lookup_and_cache_def Let_def split: prod.splits sum.splits)

lemma lookup_and_cache_cache:
  "cache (snd (lookup_and_cache ext h now s)) =
     (case fst (try_lookup ext h s) of
        Inl e \<Rightarrow> if e = ResourceNotFoundError then (cache s)(h \<mapsto> (None, now)) else cache s
      | Inr v \<Rightarrow> (cache s)(h \<mapsto> (v, now)))"
  using try_lookup_state(1) [of ext h s]
  by (auto simp add: lookup_and_cache_def Let_def logging_def emit_def
           split: prod.splits sum.splits)

lemma lookup_and_cache_ticks: "ticks (snd (lookup_and_cache ext h now s)) = ticks s"
  using try_lookup_state(2) [of ext h s]
  by (auto simp add: lookup_and_cache_def Let_def logging_def emit_def
           split: prod.splits sum.splits)

lemma lookup_and_cache_trace:
  "trace (snd (lookup_and_cache ext h now s)) =
     trace (snd (try_lookup ext h s)) @
     (case fst (try_lookup ext h s) of
        Inl e \<Rightarrow> if e = ResourceNotFoundError
                 then [Log WARNING (''No redirect entry for host '' @ h)]
                 else [Log ERROR (''Failed to look up redirect for '' @ h)]
      | Inr v \<Rightarrow> [])"
  by (auto simp add: lookup_and_cache_def Let_def logging_def emit_def
           split: prod.splits sum.splits)

lemma get_redirect_url_cases:
  "get_redirect_url ext h s =
     (if stale_or_absent ext h s
      then lookup_and_cache ext h (time_time ext (ticks s)) (snd (read_clock ext s))
      else (fst (the (cache s h)), snd (read_clock ext s)))"
  by (simp add: get_redirect_url_def stale_or_absent_def read_clock_def Let_def emit_def
           split: option.splits)

lemma stale_or_absent_iff:
  "stale_or_absent ext h s \<longleftrightarrow>
     cache s h = None \<or>
     (\<exists>v ts. cache s h = Some (v, ts)
             \<and> real_of_int (CACHE_TTL ext) \<le> time_time ext (ticks s) - ts)"
  by (auto simp add: stale_or_absent_def split: option.splits)

lemma get_redirect_url_trace:
  "stale_or_absent ext h s \<Longrightarrow>
   trace (snd (get_redirect_url ext h s)) =
     trace s @ [ClockRead (time_time ext (ticks s))]
       @ (case fst (get_table_client ext s) of Inl e \<Rightarrow> [] | Inr c \<Rightarrow> [GetEntity c h ''default''])
       @ (case fst (try_lookup ext h s) of
            Inl e \<Rightarrow> if e = ResourceNotFoundError
                     then [Log WARNING (''No redirect entry for host '' @ h)]
                     else [Log ERROR (''Failed to look up redirect for '' @ h)]
          | Inr v \<Rightarrow> [])"
  by (simp add: get_redirect_url_cases lookup_and_cache_trace try_lookup_state(3)
        try_lookup_after_clock get_table_client_after_clock read_clock_state
        split: sum.splits)

lemma get_redirect_url_fst:
  "stale_or_absent ext h s \<Longrightarrow>
   fst (get_redirect_url ext h s) = (case fst (try_lookup ext h s) of Inl e \<Rightarrow> None | Inr v \<Rightarrow> v)"
  by (simp add: get_redirect_url_cases lookup_and_cache_fst try_lookup_after_clock)

lemma get_redirect_url_cache:
  "stale_or_absent ext h s \<Longrightarrow>
   cache (snd (get_redirect_url ext h s)) =
     (case fst (try_lookup ext h s) of
        Inl e \<Rightarrow> if e = ResourceNotFoundError
                 then (cache s)(h \<mapsto> (None, time_time ext (ticks s))) else cache s
      | Inr v \<Rightarrow> (cache s)(h \<mapsto> (v, time_time ext (ticks s))))"
  by (simp add: get_redirect_url_cases lookup_and_cache_cache try_lookup_after_clock
        read_clock_state split: sum.splits)

lemma get_redirect_url_ticks: "ticks (snd (get_redirect_url ext h s)) = Suc (ticks s)"
  by (simp add: get_redirect_url_cases lookup_and_cache_ticks read_clock_state)

lemma respond_found_fst:
  "fst (respond_found ext req h u s) =
     (case ensure_scheme ext u of
        Inl e \<Rightarrow> Inl e
      | Inr (u', parsed) \<Rightarrow>
          if netloc parsed = [] then Inr invalid_target_response
          else Inr (redirect_response
                      (build_new_url u'
                         (case route_params req ''route'' of None \<Rightarrow> [] | Some r \<Rightarrow> r)
                         (if CHR ''?'' \<in> set (url req) then split_tail CHR ''?'' (url req)
                          else []))))"
  by (simp add: respond_found_def Let_def split: sum.splits prod.splits)

lemma respond_found_state:
  "cache (snd (respond_found ext req h u s)) = cache s"
  "store_calls (trace (snd (respond_found ext req h u s))) = store_calls (trace s)"
  by (simp_all add: respond_found_def Let_def logging_def emit_def store_calls_append
        split: sum.splits prod.splits)

lemma redirect_handler_fst:
  "urlparse ext (url req) = Inr p \<Longrightarrow>
   fst (redirect_handler ext req s) =
     (case fst (get_redirect_url ext (hostname_of (netloc p)) s) of
        None \<Rightarrow> Inr not_found_response
      | Some u \<Rightarrow>
          if u = [] then Inr not_found_response
          else fst (respond_found ext req (hostname_of (netloc p)) u
                      (snd (get_redirect_url ext (hostname_of (netloc p)) s))))"
  by (simp add: redirect_handler_def split: prod.splits option.splits)

lemma redirect_handler_state:
  "urlparse ext (url req) = Inr p \<Longrightarrow>
   cache (snd (redirect_handler ext req s))
     = cache (snd (get_redirect_url ext (hostname_of (netloc p)) s))"
  "urlparse ext (url req) = Inr p \<Longrightarrow>
   store_calls (trace (snd (redirect_handler ext req s)))
     = store_calls (trace (snd (get_redirect_url ext (hostname_of (netloc p)) s)))"
  by (simp_all add: redirect_handler_def respond_found_state split: prod.splits option.splits)

lemma lower_char_colon: "lower_char c = CHR '':'' \<longleftrightarrow> c = CHR '':''"
  by (simp add: lower_char_def ascii_uppercase_def ascii_lowercase_def
        latin1_uppercase_def latin1_lowercase_def)

lemma hostname_of_host_port:
  assumes "CHR '':'' \<notin> set host" and "suffix = [] \<or> (\<exists>port. suffix = CHR '':'' # port)"
  shows "hostname_of (host @ suffix) = lower host"
proof -
  have "\<And>c. c \<in> set (map lower_char host) \<Longrightarrow> c \<noteq> CHR '':''"
    using assms(1) by (auto simp add: lower_char_colon)
  then have "takeWhile (\<lambda>c. c \<noteq> CHR '':'') (map lower_char host @ map lower_char suffix)
             = map lower_char host @ takeWhile (\<lambda>c. c \<noteq> CHR '':'') (map lower_char suffix)"
    by (rule takeWhile_append2)
  moreover have "takeWhile (\<lambda>c. c \<noteq> CHR '':'') (map lower_char suffix) = []"
    using assms(2) by (auto simp add: lower_char_colon)
  ultimately show ?thesis
    by (simp add: hostname_of_def split_head_def lower_def)
qed

lemma hostname_of_eq_spec_host_key:
  assumes "CHR ''@'' \<notin> set nl" and "take 1 nl \<noteq> ''[''"
  shows "hostname_of nl = spec_host_key nl"
proof -
  have t: "takeWhile (\<lambda>c. c \<noteq> CHR ''@'') (rev nl) = rev nl"
    using assms(1) by auto
  have h: "hostinfo nl = nl" by (simp only: hostinfo_def t rev_rev_ident)
  have "(\<lambda>c. c \<noteq> CHR '':'') \<circ> lower_char = (\<lambda>c. c \<noteq> CHR '':'')"
    by (simp add: fun_eq_iff lower_char_colon)
  then have "takeWhile (\<lambda>c. c \<noteq> CHR '':'') (map lower_char nl)
             = map lower_char (takeWhile (\<lambda>c. c \<noteq> CHR '':'') nl)"
    by (simp add: takeWhile_map)
  then show ?thesis
    using assms(2) h
    by (simp add: hostname_of_def split_head_def lower_def spec_host_key_def
          host_without_port_def)
qed

lemma redirect_handler_status:
  assumes "fst (redirect_handler ext req s) = Inr r"
  shows "r = not_found_response \<or> r = invalid_target_response
         \<or> (\<exists>new_url. r = redirect_response new_url)"
  using assms
  by (auto simp add: redirect_handler_def respond_found_def Let_def
           split: sum.splits prod.splits option.splits if_splits)

lemma get_table_client_get_entity_update:
  "get_table_client (ext\<lparr>get_entity := f\<rparr>) s = get_table_client ext s"
  by (auto simp add: get_table_client_def getenv_def split: option.splits sum.splits)

subsection \<open>The concrete deployment\<close>

lemmas example_defs =
  example_externals_def service_with_def service_empty_def service_down_def
  initial_state_def state_with_entry_def

lemma try_lookup_example:
  "fst (try_lookup (example_externals service) h (state_with_entry v ts)) =
     (case service \<lparr>endpoint = ''https://acct.table.core.windows.net'',
                     table_name = ''redirects''\<rparr> h ''default'' of
        Inl e \<Rightarrow> Inl e | Inr entity \<Rightarrow> Inr (entity ''RedirectUrl''))"
  by (simp add: try_lookup_fst get_table_client_def getenv_def example_defs)

lemma get_table_client_example:
  "fst (get_table_client (example_externals service) (state_with_entry v ts)) = Inr example_client"
  "fst (get_table_client (example_externals service) initial_state) = Inr example_client"
  by (simp_all add: get_table_client_def getenv_def example_defs example_client_def)

lemma try_lookup_initial:
  "fst (try_lookup (example_externals service) h initial_state) =
     (case service example_client h ''default'' of
        Inl e \<Rightarrow> Inl e | Inr entity \<Rightarrow> Inr (entity ''RedirectUrl''))"
  by (simp add: try_lookup_fst get_table_client_example) (simp add: example_externals_def)

lemma stale_or_absent_initial: "stale_or_absent ext h initial_state"
  by (simp add: stale_or_absent_def initial_state_def)

lemma resolve_initial:
  "fst (get_redirect_url (example_externals service) h initial_state) =
     (case service example_client h ''default'' of
        Inl e \<Rightarrow> None | Inr entity \<Rightarrow> entity ''RedirectUrl'')"
  by (simp add: get_redirect_url_fst [OF stale_or_absent_initial] try_lookup_initial
        split: sum.splits)

lemma urlparse_examples:
  "py_urlparse ''https://old.example.com/foo/bar?x=1''
     = Inr \<lparr>scheme = ''https'', netloc = ''old.example.com''\<rparr>"
  "py_urlparse ''https://old.example.com/''
     = Inr \<lparr>scheme = ''https'', netloc = ''old.example.com''\<rparr>"
  "py_urlparse ''http://OLD.Example.com:8080/foo''
     = Inr \<lparr>scheme = ''http'', netloc = ''OLD.Example.com:8080''\<rparr>"
  "py_urlparse ''example.org'' = Inr \<lparr>scheme = [], netloc = []\<rparr>"
  "py_urlparse ''https://example.org'' = Inr \<lparr>scheme = ''https'', netloc = ''example.org''\<rparr>"
  "py_urlparse ''/'' = Inr \<lparr>scheme = [], netloc = []\<rparr>"
  "py_urlparse ''https:///'' = Inr \<lparr>scheme = ''https'', netloc = []\<rparr>"
  "py_urlparse ''https:///landing'' = Inr \<lparr>scheme = ''https'', netloc = []\<rparr>"
  by code_simp+

lemma hostname_of_examples:
  "hostname_of ''old.example.com'' = ''old.example.com''"
  "hostname_of ''OLD.Example.com:8080'' = ''old.example.com''"
  "lower ''old.example.com'' = ''old.example.com''"
  "lower ''OLD.Example.com'' = ''old.example.com''"
  by code_simp+

lemma host_key_examples:
  "py_urlparse ''http://[::1]:8080/foo'' = Inr \<lparr>scheme = ''http'', netloc = ''[::1]:8080''\<rparr>"
  "hostname_of ''[::1]:8080'' = ''[''"
  "spec_host_key ''[::1]:8080'' = ''[::1]''"
  "hostname_of ''user:pw@old.example.com'' = ''user''"
  "spec_host_key ''user:pw@old.example.com'' = ''old.example.com''"
  "spec_host_key ''old.example.com'' = ''old.example.com''"
  "spec_host_key ''OLD.Example.com:8080'' = ''old.example.com''"
  by code_simp+

lemma ensure_scheme_examples:
  "ensure_scheme (example_externals service) ''example.org''
     = Inr (''https://example.org'', \<lparr>scheme = ''https'', netloc = ''example.org''\<rparr>)"
  "ensure_scheme (example_externals service) ''/''
     = Inr (''https:///'', \<lparr>scheme = ''https'', netloc = []\<rparr>)"
  "ensure_scheme (example_externals service) ''https:///landing''
     = Inr (''https:///landing'', \<lparr>scheme = ''https'', netloc = []\<rparr>)"
  by (simp_all add: ensure_scheme_def example_externals_def urlparse_examples)

lemma request_examples:
  "urlparse (example_externals service)
       (url (example_request ''https://old.example.com/foo/bar?x=1'' r))
     = Inr \<lparr>scheme = ''https'', netloc = ''old.example.com''\<rparr>"
  "urlparse (example_externals service) (url (example_request ''https://old.example.com/'' r))
     = Inr \<lparr>scheme = ''https'', netloc = ''old.example.com''\<rparr>"
  by (simp_all add: example_externals_def example_request_def urlparse_examples)

lemma resolve_service_with:
  "fst (get_redirect_url (example_externals (service_with entity)) ''old.example.com''
          initial_state) = entity ''RedirectUrl''"
  by (simp add: resolve_initial service_with_def)

lemma string_examples:
  "split_tail CHR ''?'' ''https://old.example.com/foo/bar?x=1'' = ''x=1''"
  "rstrip CHR ''/'' ''https://example.org'' = ''https://example.org''"
  "rstrip CHR ''/'' ''https://example.org/'' = ''https://example.org''"
  by code_simp+

subsection \<open>The resolver\<close>

text \<open>
  Claim C1. When the durable lookup fails with a transient error, that is, when the
  \<open>try\<close> block of \<open>_get_redirect_url\<close> raises an exception other than
  \<open>ResourceNotFoundError\<close> (from the table service, or before it from the creation of the
  client), the resolver writes nothing to the cache: the whole dictionary after the call
  is the dictionary before it, so an entry for the host that was there, stale by now, is
  still there.
\<close>

theorem transient_error_keeps_cache:
  assumes "fst (try_lookup ext hostname s) = Inl e" and "e \<noteq> ResourceNotFoundError"
  shows "cache (snd (get_redirect_url ext hostname s)) = cache s"
proof (cases "stale_or_absent ext hostname s")
  case False
  then show ?thesis by (simp add: get_redirect_url_cases read_clock_snd)
next
  case True
  let ?s1 = "snd (read_clock ext s)"
  have "fst (try_lookup ext hostname ?s1) = Inl e"
    using assms(1) by (simp only: try_lookup_after_clock)
  then have "cache (snd (lookup_and_cache ext hostname (time_time ext (ticks s)) ?s1))
               = cache ?s1"
    using assms(2) by (simp add: lookup_and_cache_cache)
  then show ?thesis using True by (simp add: get_redirect_url_cases read_clock_snd)
qed

text \<open>The table service is down while the cache holds an entry that is 900 seconds old:
  the entry stays.\<close>

theorem transient_error_keeps_cache_witness:
  "fst (try_lookup (example_externals service_down) ''old.example.com''
          (state_with_entry (Some ''example.org'') 100)) = Inl OtherException
   \<and> OtherException \<noteq> ResourceNotFoundError
   \<and> cache (snd (get_redirect_url (example_externals service_down) ''old.example.com''
                    (state_with_entry (Some ''example.org'') 100))) ''old.example.com''
       = Some (Some ''example.org'', 100)"
proof -
  have h: "fst (try_lookup (example_externals service_down) ''old.example.com''
          (state_with_entry (Some ''example.org'') 100)) = Inl OtherException"
    by (simp add: try_lookup_example service_down_def)
  from transient_error_keeps_cache [OF h]
  show ?thesis using h by (simp add: state_with_entry_def)
qed

text \<open>
  Claim C4. When the cache holds an entry for the host and the entry is fresh, that is,
  \<open>now - recordedAt < TTL\<close> for the clock reading \<open>now\<close> of the resolution, the resolver
  returns the cached value, be it a destination or the negative \<open>None\<close>, both under the
  same time to live. It does not call the table service: the only thing added to the
  trace is the reading of the clock. Neither the cache nor the client changes.
\<close>

theorem fresh_entry_served_from_cache:
  assumes "cache s hostname = Some (v, recordedAt)"
      and "time_time ext (ticks s) - recordedAt < real_of_int (CACHE_TTL ext)"
  shows "fst (get_redirect_url ext hostname s) = v
       \<and> store_calls (trace (snd (get_redirect_url ext hostname s))) = store_calls (trace s)
       \<and> trace (snd (get_redirect_url ext hostname s))
           = trace s @ [ClockRead (time_time ext (ticks s))]
       \<and> cache (snd (get_redirect_url ext hostname s)) = cache s
       \<and> table_client (snd (get_redirect_url ext hostname s)) = table_client s"
proof -
  have "\<not> stale_or_absent ext hostname s"
    using assms by (simp add: stale_or_absent_def)
  then have "get_redirect_url ext hostname s = (v, snd (read_clock ext s))"
    using assms(1) by (simp add: get_redirect_url_cases)
  then show ?thesis
    by (simp add: read_clock_snd store_calls_append)
qed

text \<open>An entry that is 100 seconds old, once with a destination and once with \<open>None\<close>,
  in front of a table service that would fail if it were called.\<close>

theorem fresh_entry_served_from_cache_witness:
  "(let s = state_with_entry (Some ''example.org'') 900;
        ext = example_externals service_down
    in cache s ''old.example.com'' = Some (Some ''example.org'', 900)
       \<and> time_time ext (ticks s) - 900 < real_of_int (CACHE_TTL ext)
       \<and> fst (get_redirect_url ext ''old.example.com'' s) = Some ''example.org''
       \<and> store_calls (trace (snd (get_redirect_url ext ''old.example.com'' s))) = [])
   \<and> (let s = state_with_entry None 900;
        ext = example_externals service_down
    in cache s ''old.example.com'' = Some (None, 900)
       \<and> time_time ext (ticks s) - 900 < real_of_int (CACHE_TTL ext)
       \<and> fst (get_redirect_url ext ''old.example.com'' s) = None
       \<and> store_calls (trace (snd (get_redirect_url ext ''old.example.com'' s))) = [])"
proof -
  have h1: "cache (state_with_entry v 900) ''old.example.com'' = Some (v, 900)" for v
    by (simp add: state_with_entry_def)
  have h2: "time_time (example_externals service_down) (ticks (state_with_entry v 900)) - 900
            < real_of_int (CACHE_TTL (example_externals service_down))" for v
    by (simp add: example_defs)
  have t: "trace (state_with_entry v 900) = []" for v
    by (simp add: state_with_entry_def)
  from fresh_entry_served_from_cache [OF h1 h2, of "Some ''example.org''"]
       fresh_entry_served_from_cache [OF h1 h2, of None]
  show ?thesis using h1 h2 by (simp add: Let_def t)
qed

text \<open>
  Claim C5 says that a resolution without a fresh entry makes exactly one call of the
  table service. In a process that has no client yet and no
  \<open>AzureWebJobsStorage__tableServiceUri\<close> in its environment, \<open>_get_table_client\<close>
  raises \<open>KeyError\<close> inside the \<open>try\<close> block, and the resolution ends without any call.
\<close>

theorem no_store_call_without_endpoint:
  "cache initial_state ''old.example.com'' = None
   \<and> store_calls (trace initial_state) = []
   \<and> store_calls (trace (snd (get_redirect_url unconfigured_externals ''old.example.com''
                                  initial_state))) = []
   \<and> length (store_calls (trace (snd (get_redirect_url unconfigured_externals
                                          ''old.example.com'' initial_state)))) \<noteq> 1"
  by (simp add: get_redirect_url_def read_clock_def lookup_and_cache_def try_lookup_def
        get_table_client_def logging_def emit_def unconfigured_externals_def example_defs Let_def)

text \<open>
  Claim C5, as the code has it. When the cache holds no entry for the host, or an entry
  with \<open>now - recordedAt \<ge> TTL\<close>, the resolution makes at most one call of the table
  service and never a second one: exactly one, for this host and the row key
  \<open>default\<close>, when \<open>_get_table_client\<close> returns a client, and none when it raises. The
  result is what the \<open>try\<close> block yields (\<open>None\<close> when it raises), and it is the
  result the resolution would have with no entry for the host at all: the value of the
  stale entry is not returned.
\<close>

theorem at_most_one_store_call:
  assumes "cache s hostname = None
         \<or> (\<exists>v recordedAt. cache s hostname = Some (v, recordedAt)
               \<and> real_of_int (CACHE_TTL ext) \<le> time_time ext (ticks s) - recordedAt)"
  shows "store_calls (trace (snd (get_redirect_url ext hostname s)))
           = store_calls (trace s)
             @ (case fst (get_table_client ext s) of
                  Inl e \<Rightarrow> []
                | Inr c \<Rightarrow> [(c, hostname, ''default'')])
       \<and> fst (get_redirect_url ext hostname s)
           = (case fst (try_lookup ext hostname s) of Inl e \<Rightarrow> None | Inr v \<Rightarrow> v)
       \<and> fst (get_redirect_url ext hostname s)
           = fst (get_redirect_url ext hostname (s\<lparr>cache := (cache s)(hostname := None)\<rparr>))"
proof -
  let ?s0 = "s\<lparr>cache := (cache s)(hostname := None)\<rparr>"
  have st: "stale_or_absent ext hostname s"
    using assms by (simp only: stale_or_absent_iff)
  have st0: "stale_or_absent ext hostname ?s0"
    by (simp add: stale_or_absent_def)
  have calls: "store_calls (trace (snd (get_redirect_url ext hostname s)))
           = store_calls (trace s)
             @ (case fst (get_table_client ext s) of
                  Inl e \<Rightarrow> []
                | Inr c \<Rightarrow> [(c, hostname, ''default'')])"
    by (simp add: get_redirect_url_trace [OF st] store_calls_append split: sum.splits)
  have res: "fst (get_redirect_url ext hostname s)
           = (case fst (try_lookup ext hostname s) of Inl e \<Rightarrow> None | Inr v \<Rightarrow> v)"
    by (rule get_redirect_url_fst [OF st])
  have "fst (get_redirect_url ext hostname ?s0)
           = (case fst (try_lookup ext hostname s) of Inl e \<Rightarrow> None | Inr v \<Rightarrow> v)"
    by (simp only: get_redirect_url_fst [OF st0] try_lookup_cache_update)
  with calls res show ?thesis by simp
qed

text \<open>A stale entry with another destination than the table holds: one call, and the
  destination of the table is the result.\<close>

theorem at_most_one_store_call_witness:
  "(let s = state_with_entry (Some ''stale.example'') 100;
        ext = example_externals (service_with [''RedirectUrl'' \<mapsto> ''example.org''])
    in (cache s ''old.example.com'' = None
        \<or> (\<exists>v recordedAt. cache s ''old.example.com'' = Some (v, recordedAt)
               \<and> real_of_int (CACHE_TTL ext) \<le> time_time ext (ticks s) - recordedAt))
       \<and> store_calls (trace (snd (get_redirect_url ext ''old.example.com'' s)))
           = [(example_client, ''old.example.com'', ''default'')]
       \<and> fst (get_redirect_url ext ''old.example.com'' s) = Some ''example.org'')"
proof -
  let ?s = "state_with_entry (Some ''stale.example'') 100"
  let ?ext = "example_externals (service_with [''RedirectUrl'' \<mapsto> ''example.org''])"
  have h: "cache ?s ''old.example.com'' = None
        \<or> (\<exists>v recordedAt. cache ?s ''old.example.com'' = Some (v, recordedAt)
               \<and> real_of_int (CACHE_TTL ?ext) \<le> time_time ?ext (ticks ?s) - recordedAt)"
    by (simp add: example_defs)
  have t: "trace ?s = []" by (simp add: state_with_entry_def)
  from at_most_one_store_call [OF h]
  show ?thesis
    using h by (simp add: Let_def t get_table_client_example try_lookup_example service_with_def)
qed

text \<open>
  Claim C6. When a resolution without a fresh entry reaches the table service and the
  service answers with an entity or with \<open>ResourceNotFoundError\<close>, the resolver writes
  the cache entry of the host at once: the entity's \<open>RedirectUrl\<close> (\<open>None\<close> when the
  entity has none) or, for \<open>ResourceNotFoundError\<close>, the negative \<open>None\<close>, together with
  the clock reading of this resolution. The write replaces whatever entry the host had,
  and no other entry changes.
\<close>

theorem completed_lookup_is_cached:
  assumes "stale_or_absent ext hostname s"
      and "fst (get_table_client ext s) = Inr c"
  shows "(\<forall>entity. get_entity ext c hostname ''default'' = Inr entity \<longrightarrow>
            cache (snd (get_redirect_url ext hostname s))
              = (cache s)(hostname \<mapsto> (entity ''RedirectUrl'', time_time ext (ticks s))))
       \<and> (get_entity ext c hostname ''default'' = Inl ResourceNotFoundError \<longrightarrow>
            cache (snd (get_redirect_url ext hostname s))
              = (cache s)(hostname \<mapsto> (None, time_time ext (ticks s))))"
  using assms(2)
  by (simp add: get_redirect_url_cache [OF assms(1)] try_lookup_fst)

text \<open>A stale entry is replaced, once by the destination of the table and once, with
  an empty table, by \<open>None\<close>; the new time stamp is the clock's 1000.\<close>

theorem completed_lookup_is_cached_witness:
  "(let s = state_with_entry (Some ''stale.example'') 100;
        ext = example_externals (service_with [''RedirectUrl'' \<mapsto> ''example.org''])
    in stale_or_absent ext ''old.example.com'' s
       \<and> fst (get_table_client ext s) = Inr example_client
       \<and> get_entity ext example_client ''old.example.com'' ''default''
            = Inr [''RedirectUrl'' \<mapsto> ''example.org'']
       \<and> cache (snd (get_redirect_url ext ''old.example.com'' s)) ''old.example.com''
            = Some (Some ''example.org'', 1000))
   \<and> (let s = state_with_entry (Some ''stale.example'') 100;
        ext = example_externals service_empty
    in stale_or_absent ext ''old.example.com'' s
       \<and> fst (get_table_client ext s) = Inr example_client
       \<and> get_entity ext example_client ''old.example.com'' ''default''
            = Inl ResourceNotFoundError
       \<and> cache (snd (get_redirect_url ext ''old.example.com'' s)) ''old.example.com''
            = Some (None, 1000))"
proof -
  let ?s = "state_with_entry (Some ''stale.example'') 100"
  have st: "stale_or_absent (example_externals service) ''old.example.com'' ?s" for service
    by (simp add: stale_or_absent_def example_defs)
  have cl: "fst (get_table_client (example_externals service) ?s) = Inr example_client"
    for service
    by (rule get_table_client_example)
  have g1: "get_entity (example_externals (service_with [''RedirectUrl'' \<mapsto> ''example.org'']))
              example_client ''old.example.com'' ''default''
            = Inr [''RedirectUrl'' \<mapsto> ''example.org'']"
    by (simp add: example_defs)
  have g2: "get_entity (example_externals service_empty)
              example_client ''old.example.com'' ''default'' = Inl ResourceNotFoundError"
    by (simp add: example_defs)
  have t: "time_time (example_externals service) (ticks ?s) = 1000" for service
    by (simp add: example_defs)
  from completed_lookup_is_cached [OF st cl, of "service_with [''RedirectUrl'' \<mapsto> ''example.org'']"]
       completed_lookup_is_cached [OF st cl, of service_empty]
  show ?thesis
    using st cl g1 g2 by (simp add: Let_def t)
qed

text \<open>
  Claim C10. In a resolution that calls the table service and then writes the cache, the
  time stamp of the new entry is the value that the clock had when the resolution
  started: the clock is read once, before the call of the table service, and that one
  reading serves the freshness test and the write. However long the call takes, the
  entry's time to live counts from the start of the resolution.
\<close>

theorem timestamp_is_clock_reading_at_start:
  assumes "stale_or_absent ext hostname s"
      and "fst (get_table_client ext s) = Inr c"
      and "get_entity ext c hostname ''default'' = Inr entity
           \<or> get_entity ext c hostname ''default'' = Inl ResourceNotFoundError"
  shows "\<exists>v rest.
           cache (snd (get_redirect_url ext hostname s)) hostname
             = Some (v, time_time ext (ticks s))
         \<and> ticks (snd (get_redirect_url ext hostname s)) = Suc (ticks s)
         \<and> trace (snd (get_redirect_url ext hostname s))
             = trace s @ [ClockRead (time_time ext (ticks s)), GetEntity c hostname ''default'']
                 @ rest
         \<and> (\<forall>t. ClockRead t \<notin> set rest)"
  using assms(2,3)
  by (auto simp add: get_redirect_url_cache [OF assms(1)] get_redirect_url_trace [OF assms(1)]
        get_redirect_url_ticks try_lookup_fst)

text \<open>The clock shows 1000 at the start and 1010 at its next reading; the entry is
  stamped 1000.\<close>

theorem timestamp_is_clock_reading_at_start_witness:
  "(let s = initial_state;
        ext = example_externals (service_with [''RedirectUrl'' \<mapsto> ''example.org''])
    in stale_or_absent ext ''old.example.com'' s
       \<and> fst (get_table_client ext s) = Inr example_client
       \<and> get_entity ext example_client ''old.example.com'' ''default''
            = Inr [''RedirectUrl'' \<mapsto> ''example.org'']
       \<and> time_time ext (ticks s) = 1000
       \<and> time_time ext (ticks (snd (get_redirect_url ext ''old.example.com'' s))) = 1010
       \<and> (\<exists>v. cache (snd (get_redirect_url ext ''old.example.com'' s)) ''old.example.com''
                 = Some (v, 1000)))"
proof -
  let ?s = initial_state
  let ?ext = "example_externals (service_with [''RedirectUrl'' \<mapsto> ''example.org''])"
  have st: "stale_or_absent ?ext ''old.example.com'' ?s"
    by (simp add: stale_or_absent_def example_defs)
  have cl: "fst (get_table_client ?ext ?s) = Inr example_client"
    by (rule get_table_client_example)
  have g: "get_entity ?ext example_client ''old.example.com'' ''default''
            = Inr [''RedirectUrl'' \<mapsto> ''example.org'']"
    by (simp add: example_defs)
  have t: "time_time ?ext (ticks ?s) = 1000" "time_time ?ext (Suc (ticks ?s)) = 1010"
    by (simp_all add: example_defs)
  from timestamp_is_clock_reading_at_start [OF st cl disjI1, OF g]
  show ?thesis
    using st cl g t by (auto simp add: Let_def)
qed

subsection \<open>The handler\<close>

text \<open>
  Claim C9. The key under which a request is looked up shall be the host name of the
  request's authority in lower case, without the port, so that two requests for one host
  have one key. The handler takes the text of the \<open>netloc\<close> before its first colon, in
  lower case. That is the claim's key when the \<open>netloc\<close> has no user information and
  does not start with a bracket (lemma \<open>hostname_of_eq_spec_host_key\<close>). It is not for a
  request to an IPv6 literal: for \<open>http://[::1]:8080/foo\<close> the claim's key is \<open>[::1]\<close>,
  while the handler asks the table service for the partition key \<open>[\<close>, as it does for
  every other IPv6 literal. Nor is it with user information that holds a colon: there
  the handler's key is the user name, and one host has two keys.
\<close>

theorem host_key_of_ipv6_literal:
  "urlparse (example_externals service_empty)
       (url (example_request ''http://[::1]:8080/foo'' ''foo''))
     = Inr \<lparr>scheme = ''http'', netloc = ''[::1]:8080''\<rparr>
   \<and> spec_host_key ''[::1]:8080'' = ''[::1]''
   \<and> hostname_of ''[::1]:8080'' = ''[''
   \<and> store_calls (trace (snd (redirect_handler (example_externals service_empty)
                      (example_request ''http://[::1]:8080/foo'' ''foo'') initial_state)))
       = [(example_client, ''['', ''default'')]
   \<and> spec_host_key ''user:pw@old.example.com'' = spec_host_key ''old.example.com''
   \<and> hostname_of ''user:pw@old.example.com'' = ''user''
   \<and> hostname_of ''old.example.com'' = ''old.example.com''"
proof -
  let ?ext = "example_externals service_empty"
  let ?req = "example_request ''http://[::1]:8080/foo'' ''foo''"
  have u: "urlparse ?ext (url ?req) = Inr \<lparr>scheme = ''http'', netloc = ''[::1]:8080''\<rparr>"
    by (simp add: example_externals_def example_request_def host_key_examples)
  have "store_calls (trace (snd (redirect_handler ?ext ?req initial_state)))
          = store_calls (trace (snd (get_redirect_url ?ext ''['' initial_state)))"
    by (simp add: redirect_handler_state(2) [OF u] host_key_examples)
  also have "\<dots> = [(example_client, ''['', ''default'')]"
    by (simp add: get_redirect_url_trace [OF stale_or_absent_initial] store_calls_append
          get_table_client_example try_lookup_initial service_empty_def)
       (simp add: initial_state_def)
  finally show ?thesis
    using u by (simp add: host_key_examples hostname_of_examples)
qed

text \<open>
  Claim C8. When the lookup of a request's host raises inside the \<open>try\<close> block, the
  response is the same whatever was raised: for \<open>ResourceNotFoundError\<close> (no such
  host) as for any other exception (a transient error) it is status 500 with the body
  \<open>Configuration error: redirect url not found.\<close> The resolver returns \<open>None\<close> in both
  cases, as it does for a cached negative, and \<open>None\<close> always gets this response.
  Whatever the request, a response with status 500 carries one of two bodies, that one
  and \<open>Configuration error: invalid redirect target.\<close>; the two are different, and
  each of them is the body of the response to some request.
\<close>

theorem not_found_and_transient_error_same_response:
  assumes "urlparse ext (url req) = Inr p"
      and "stale_or_absent ext (hostname_of (netloc p)) s"
      and "fst (try_lookup ext (hostname_of (netloc p)) s) = Inl e"
  shows "fst (redirect_handler ext req s) = Inr not_found_response
       \<and> status_code not_found_response = 500
       \<and> body not_found_response = ''Configuration error: redirect url not found.''
       \<and> (\<forall>s'. fst (get_redirect_url ext (hostname_of (netloc p)) s') = None
             \<longrightarrow> fst (redirect_handler ext req s') = Inr not_found_response)
       \<and> (\<forall>ext' req' s' r. fst (redirect_handler ext' req' s') = Inr r \<and> status_code r = 500
             \<longrightarrow> body r = ''Configuration error: redirect url not found.''
               \<or> body r = ''Configuration error: invalid redirect target.'')
       \<and> ''Configuration error: redirect url not found.''
           \<noteq> ''Configuration error: invalid redirect target.''
       \<and> (\<exists>ext' req' s'. fst (redirect_handler ext' req' s')
             = Inr \<lparr>body = ''Configuration error: redirect url not found.'',
                    status_code = 500, response_headers = []\<rparr>)
       \<and> (\<exists>ext' req' s'. fst (redirect_handler ext' req' s')
             = Inr \<lparr>body = ''Configuration error: invalid redirect target.'',
                    status_code = 500, response_headers = []\<rparr>)"
proof -
  have "fst (get_redirect_url ext (hostname_of (netloc p)) s) = None"
    using assms(3) by (simp add: get_redirect_url_fst [OF assms(2)])
  then have a: "fst (redirect_handler ext req s) = Inr not_found_response"
    by (simp add: redirect_handler_fst [OF assms(1)])
  have b: "body r = ''Configuration error: redirect url not found.''
               \<or> body r = ''Configuration error: invalid redirect target.''"
    if "fst (redirect_handler ext' req' s') = Inr r" and "status_code r = 500"
    for ext' req' s' r
    using redirect_handler_status [OF that(1)] that(2)
    by (auto simp add: not_found_response_def invalid_target_response_def redirect_response_def)
  have c: "fst (redirect_handler ext req s') = Inr not_found_response"
    if "fst (get_redirect_url ext (hostname_of (netloc p)) s') = None" for s'
    using that by (simp add: redirect_handler_fst [OF assms(1)])
  have d: "status_code not_found_response = 500
       \<and> body not_found_response = ''Configuration error: redirect url not found.''"
    by (simp add: not_found_response_def)
  have "fst (redirect_handler (example_externals service_empty)
               (example_request ''https://old.example.com/foo/bar?x=1'' ''foo/bar'')
               initial_state)
          = Inr \<lparr>body = ''Configuration error: redirect url not found.'',
                 status_code = 500, response_headers = []\<rparr>"
    by (simp add: redirect_handler_fst [OF request_examples(1)] hostname_of_examples
          resolve_initial service_empty_def not_found_response_def)
  then have f: "\<exists>ext' req' s'. fst (redirect_handler ext' req' s')
             = Inr \<lparr>body = ''Configuration error: redirect url not found.'',
                    status_code = 500, response_headers = []\<rparr>"
    by blast
  have "fst (redirect_handler (example_externals (service_with [''RedirectUrl'' \<mapsto> ''/'']))
               (example_request ''https://old.example.com/foo/bar?x=1'' ''foo/bar'')
               initial_state)
          = Inr \<lparr>body = ''Configuration error: invalid redirect target.'',
                 status_code = 500, response_headers = []\<rparr>"
    by (simp add: redirect_handler_fst [OF request_examples(1)] hostname_of_examples
          resolve_service_with respond_found_fst ensure_scheme_examples
          invalid_target_response_def)
  then have g: "\<exists>ext' req' s'. fst (redirect_handler ext' req' s')
             = Inr \<lparr>body = ''Configuration error: invalid redirect target.'',
                    status_code = 500, response_headers = []\<rparr>"
    by blast
  have e: "\<forall>ext' req' s' r. fst (redirect_handler ext' req' s') = Inr r \<and> status_code r = 500
             \<longrightarrow> body r = ''Configuration error: redirect url not found.''
               \<or> body r = ''Configuration error: invalid redirect target.''"
    using b by blast
  have n: "''Configuration error: redirect url not found.''
           \<noteq> ''Configuration error: invalid redirect target.''"
    by simp
  from a d c e n f g show ?thesis by (intro conjI) simp_all
qed

text \<open>
  An empty table and a table service that is down give the same response to the same
  request.
\<close>

theorem not_found_and_transient_error_same_response_witness:
  "(let req = example_request ''https://old.example.com/foo/bar?x=1'' ''foo/bar'';
        p = \<lparr>scheme = ''https'', netloc = ''old.example.com''\<rparr>
    in urlparse (example_externals service_empty) (url req) = Inr p
     \<and> urlparse (example_externals service_down) (url req) = Inr p
     \<and> stale_or_absent (example_externals service_empty) (hostname_of (netloc p)) initial_state
     \<and> stale_or_absent (example_externals service_down) (hostname_of (netloc p)) initial_state
     \<and> fst (try_lookup (example_externals service_empty) (hostname_of (netloc p)) initial_state)
         = Inl ResourceNotFoundError
     \<and> fst (try_lookup (example_externals service_down) (hostname_of (netloc p)) initial_state)
         = Inl OtherException
     \<and> fst (redirect_handler (example_externals service_empty) req initial_state)
         = fst (redirect_handler (example_externals service_down) req initial_state)
     \<and> fst (redirect_handler (example_externals service_down) req initial_state)
         = Inr \<lparr>body = ''Configuration error: redirect url not found.'', status_code = 500,
                response_headers = []\<rparr>)"
proof -
  let ?req = "example_request ''https://old.example.com/foo/bar?x=1'' ''foo/bar''"
  let ?p = "\<lparr>scheme = ''https'', netloc = ''old.example.com''\<rparr>"
  have u: "urlparse (example_externals service) (url ?req) = Inr ?p" for service
    by (simp add: example_externals_def example_request_def urlparse_examples)
  have st: "stale_or_absent (example_externals service) (hostname_of (netloc ?p)) initial_state"
    for service
    by (rule stale_or_absent_initial)
  have l1: "fst (try_lookup (example_externals service_empty) (hostname_of (netloc ?p))
                   initial_state) = Inl ResourceNotFoundError"
    by (simp add: try_lookup_initial service_empty_def)
  have l2: "fst (try_lookup (example_externals service_down) (hostname_of (netloc ?p))
                   initial_state) = Inl OtherException"
    by (simp add: try_lookup_initial service_down_def)
  from not_found_and_transient_error_same_response [OF u st l1]
       not_found_and_transient_error_same_response [OF u st l2]
  show ?thesis
    using u st l1 l2 by (simp add: Let_def not_found_response_def)
qed

text \<open>
  Claim C2 says that a malformed stored value, the empty string for example, is
  answered with the message \<open>invalid redirect target\<close>. For the empty string the test
  \<open>not redirect_url\<close> holds, and the handler answers as for a host that is not
  configured.
\<close>

theorem empty_value_answered_as_not_found:
  "fst (redirect_handler (example_externals (service_with [''RedirectUrl'' \<mapsto> '''']))
          (example_request ''https://old.example.com/foo/bar?x=1'' ''foo/bar'') initial_state)
     = Inr \<lparr>body = ''Configuration error: redirect url not found.'', status_code = 500,
            response_headers = []\<rparr>
   \<and> fst (redirect_handler (example_externals (service_with [''RedirectUrl'' \<mapsto> '''']))
          (example_request ''https://old.example.com/foo/bar?x=1'' ''foo/bar'') initial_state)
     \<noteq> Inr invalid_target_response"
  by (simp add: redirect_handler_fst [OF request_examples(1)] hostname_of_examples
        resolve_service_with not_found_response_def invalid_target_response_def)

text \<open>
  Claim C2, as the code has it. When the stored value is not empty and has no host,
  that is, \<open>urlparse\<close> finds an empty \<open>netloc\<close> in the value (with \<open>https://\<close> in front
  when the value has no scheme), the handler responds with status 500 and the body
  \<open>Configuration error: invalid redirect target.\<close>, which is not the body for a host
  that is not configured, and logs the host name and the value as an error.
\<close>

theorem invalid_target_for_value_without_host:
  assumes "urlparse ext (url req) = Inr p"
      and "fst (get_redirect_url ext (hostname_of (netloc p)) s) = Some redirect_url"
      and "redirect_url \<noteq> []"
      and "ensure_scheme ext redirect_url = Inr (redirect_url', parsed)"
      and "netloc parsed = []"
  shows "fst (redirect_handler ext req s)
           = Inr \<lparr>body = ''Configuration error: invalid redirect target.'', status_code = 500,
                  response_headers = []\<rparr>
       \<and> ''Configuration error: invalid redirect target.'' \<noteq> body not_found_response
       \<and> trace (snd (redirect_handler ext req s))
           = trace (snd (get_redirect_url ext (hostname_of (netloc p)) s))
             @ [Log ERROR (''Invalid redirect URL for host '' @ hostname_of (netloc p) @ '': ''
                             @ redirect_url')]"
proof -
  obtain s' where r: "get_redirect_url ext (hostname_of (netloc p)) s = (Some redirect_url, s')"
    using assms(2) by (cases "get_redirect_url ext (hostname_of (netloc p)) s") simp
  show ?thesis
    using assms(1,3,4,5) r
    by (simp add: redirect_handler_def respond_found_def invalid_target_response_def
          not_found_response_def logging_def emit_def)
qed

text \<open>
  The stored value \<open>/\<close> has no scheme and, as \<open>https:///\<close>, no host.
\<close>

theorem invalid_target_for_value_without_host_witness:
  "(let ext = example_externals (service_with [''RedirectUrl'' \<mapsto> ''/'']);
        req = example_request ''https://old.example.com/foo/bar?x=1'' ''foo/bar'';
        p = \<lparr>scheme = ''https'', netloc = ''old.example.com''\<rparr>
    in urlparse ext (url req) = Inr p
     \<and> fst (get_redirect_url ext (hostname_of (netloc p)) initial_state) = Some ''/''
     \<and> ''/'' \<noteq> []
     \<and> ensure_scheme ext ''/'' = Inr (''https:///'', \<lparr>scheme = ''https'', netloc = []\<rparr>)
     \<and> fst (redirect_handler ext req initial_state)
         = Inr \<lparr>body = ''Configuration error: invalid redirect target.'', status_code = 500,
                response_headers = []\<rparr>)"
proof -
  let ?ext = "example_externals (service_with [''RedirectUrl'' \<mapsto> ''/''])"
  let ?req = "example_request ''https://old.example.com/foo/bar?x=1'' ''foo/bar''"
  let ?p = "\<lparr>scheme = ''https'', netloc = ''old.example.com''\<rparr>"
  let ?parsed = "\<lparr>scheme = ''https'', netloc = []\<rparr>"
  have u: "urlparse ?ext (url ?req) = Inr ?p" by (rule request_examples)
  have g: "fst (get_redirect_url ?ext (hostname_of (netloc ?p)) initial_state) = Some ''/''"
    by (simp add: hostname_of_examples resolve_service_with)
  have n: "''/'' \<noteq> []" by simp
  have e: "ensure_scheme ?ext ''/'' = Inr (''https:///'', ?parsed)"
    by (rule ensure_scheme_examples)
  have nl: "netloc ?parsed = []" by simp
  from invalid_target_for_value_without_host [OF u g n e nl]
  show ?thesis
    using u g e by (simp add: Let_def)
qed

text \<open>
  Claim C7 says that every destination that is found is answered with a redirect. A
  destination that is found but has no host, such as \<open>https:///landing\<close>, is answered
  with status 500.
\<close>

theorem found_value_without_host_is_not_redirected:
  "fst (get_redirect_url (example_externals (service_with [''RedirectUrl'' \<mapsto> ''https:///landing'']))
          ''old.example.com'' initial_state) = Some ''https:///landing''
   \<and> fst (redirect_handler
            (example_externals (service_with [''RedirectUrl'' \<mapsto> ''https:///landing'']))
            (example_request ''https://old.example.com/foo/bar?x=1'' ''foo/bar'') initial_state)
       = Inr \<lparr>body = ''Configuration error: invalid redirect target.'', status_code = 500,
              response_headers = []\<rparr>"
  by (simp add: redirect_handler_fst [OF request_examples(1)] hostname_of_examples
        resolve_service_with respond_found_fst ensure_scheme_examples
        invalid_target_response_def redirect_response_def)

text \<open>
  Claim C7, as the code has it. For a destination that is found (neither \<open>None\<close> nor
  empty) and has a host after \<open>https://\<close> was put in front of a value without scheme,
  the handler responds with status 307 and an empty body, and the \<open>Location\<close> header is
  the destination without its trailing slashes, followed by \<open>/\<close> and the route
  parameter when that is not empty, followed by \<open>?\<close> and the query string of the request
  when that is not empty.
\<close>

theorem redirect_location:
  assumes "urlparse ext (url req) = Inr p"
      and "fst (get_redirect_url ext (hostname_of (netloc p)) s) = Some redirect_url"
      and "redirect_url \<noteq> []"
      and "urlparse ext redirect_url = Inr parsed"
      and "target = (if scheme parsed = [] then ''https://'' @ redirect_url else redirect_url)"
      and "urlparse ext target = Inr parsed'"
      and "netloc parsed' \<noteq> []"
      and "path = (case route_params req ''route'' of None \<Rightarrow> [] | Some r \<Rightarrow> r)"
      and "query = (if CHR ''?'' \<in> set (url req) then split_tail CHR ''?'' (url req) else [])"
  shows "fst (redirect_handler ext req s)
           = Inr \<lparr>body = [], status_code = 307,
                  response_headers =
                    [(''Location'',
                      rstrip CHR ''/'' target
                        @ (if path \<noteq> [] then ''/'' @ path else [])
                        @ (if query \<noteq> [] then ''?'' @ query else []))]\<rparr>"
proof -
  have "ensure_scheme ext redirect_url = Inr (target, parsed')"
    using assms(4,5,6) by (auto simp add: ensure_scheme_def)
  then have "fst (respond_found ext req h redirect_url s')
               = Inr (redirect_response (build_new_url target path query))" for h s'
    using assms(7,8,9) by (simp add: respond_found_fst)
  then show ?thesis
    using assms(2,3)
    by (simp add: redirect_handler_fst [OF assms(1)] redirect_response_def build_new_url_def)
qed

text \<open>
  With \<open>example.org\<close> stored for \<open>old.example.com\<close>, a GET of
  \<open>https://old.example.com/foo/bar?x=1\<close> is redirected to
  \<open>https://example.org/foo/bar?x=1\<close>, and a GET of \<open>https://old.example.com/\<close> to
  \<open>https://example.org\<close>, with no slash at the end.
\<close>

theorem redirect_location_witness:
  "(let ext = example_externals (service_with [''RedirectUrl'' \<mapsto> ''example.org'']);
        p = \<lparr>scheme = ''https'', netloc = ''old.example.com''\<rparr>
    in (let req = example_request ''https://old.example.com/foo/bar?x=1'' ''foo/bar''
        in urlparse ext (url req) = Inr p
         \<and> fst (get_redirect_url ext (hostname_of (netloc p)) initial_state)
             = Some ''example.org''
         \<and> urlparse ext ''example.org'' = Inr \<lparr>scheme = [], netloc = []\<rparr>
         \<and> urlparse ext ''https://example.org''
             = Inr \<lparr>scheme = ''https'', netloc = ''example.org''\<rparr>
         \<and> fst (redirect_handler ext req initial_state)
             = Inr \<lparr>body = [], status_code = 307,
                    response_headers = [(''Location'', ''https://example.org/foo/bar?x=1'')]\<rparr>)
     \<and> (let req = example_request ''https://old.example.com/'' []
        in urlparse ext (url req) = Inr p
         \<and> fst (redirect_handler ext req initial_state)
             = Inr \<lparr>body = [], status_code = 307,
                    response_headers = [(''Location'', ''https://example.org'')]\<rparr>))"
proof -
  let ?ext = "example_externals (service_with [''RedirectUrl'' \<mapsto> ''example.org''])"
  let ?p = "\<lparr>scheme = ''https'', netloc = ''old.example.com''\<rparr>"
  let ?req1 = "example_request ''https://old.example.com/foo/bar?x=1'' ''foo/bar''"
  let ?req2 = "example_request ''https://old.example.com/'' []"
  let ?parsed = "\<lparr>scheme = [], netloc = []\<rparr>"
  let ?parsed' = "\<lparr>scheme = ''https'', netloc = ''example.org''\<rparr>"
  have u1: "urlparse ?ext (url ?req1) = Inr ?p" by (rule request_examples)
  have u2: "urlparse ?ext (url ?req2) = Inr ?p" by (rule request_examples)
  have g: "fst (get_redirect_url ?ext (hostname_of (netloc ?p)) initial_state)
             = Some ''example.org''"
    by (simp add: hostname_of_examples resolve_service_with)
  have n: "''example.org'' \<noteq> []" by simp
  have a: "urlparse ?ext ''example.org'' = Inr ?parsed"
    by (simp add: example_externals_def urlparse_examples)
  have t: "''https://example.org''
             = (if scheme ?parsed = [] then ''https://'' @ ''example.org'' else ''example.org'')"
    by simp
  have b: "urlparse ?ext ''https://example.org'' = Inr ?parsed'"
    by (simp add: example_externals_def urlparse_examples)
  have nl: "netloc ?parsed' \<noteq> []" by simp
  have q1: "split_tail CHR ''?'' (url ?req1) = ''x=1''"
    by (simp add: example_request_def string_examples)
  have r1: "fst (redirect_handler ?ext ?req1 initial_state)
             = Inr \<lparr>body = [], status_code = 307,
                    response_headers = [(''Location'', ''https://example.org/foo/bar?x=1'')]\<rparr>"
    using redirect_location [OF u1 g n a t b nl refl refl]
    by (simp add: q1 string_examples) (simp add: example_request_def)
  have r2: "fst (redirect_handler ?ext ?req2 initial_state)
             = Inr \<lparr>body = [], status_code = 307,
                    response_headers = [(''Location'', ''https://example.org'')]\<rparr>"
    using redirect_location [OF u2 g n a t b nl refl refl]
    by (simp add: string_examples) (simp add: example_request_def)
  show ?thesis
    using u1 u2 g a b r1 r2 by (simp add: Let_def)
qed

text \<open>
  Claim C3 says that an entity whose \<open>RedirectUrl\<close> is empty is cached as the negative
  outcome, as a host without entity is. An empty \<open>RedirectUrl\<close> is cached as the empty
  string, a host without entity as \<open>None\<close>.
\<close>

theorem empty_destination_cached_as_empty_string:
  "cache (snd (get_redirect_url (example_externals (service_with [''RedirectUrl'' \<mapsto> '''']))
                 ''old.example.com'' initial_state)) ''old.example.com''
     = Some (Some [], 1000)
   \<and> cache (snd (get_redirect_url (example_externals service_empty)
                 ''old.example.com'' initial_state)) ''old.example.com''
     = Some (None, 1000)
   \<and> cache (snd (get_redirect_url (example_externals (service_with [''RedirectUrl'' \<mapsto> '''']))
                 ''old.example.com'' initial_state)) ''old.example.com''
     \<noteq> cache (snd (get_redirect_url (example_externals service_empty)
                 ''old.example.com'' initial_state)) ''old.example.com''"
  by (simp add: get_redirect_url_cache [OF stale_or_absent_initial] try_lookup_initial
        service_with_def service_empty_def)
     (simp add: example_defs)

text \<open>
  Claim C3, as the code has it. When the table service returns an entity whose
  \<open>RedirectUrl\<close> is absent or empty, the request gets the response that it gets when the
  service answers \<open>ResourceNotFoundError\<close>, and the value is cached with the clock
  reading of the resolution: an absent \<open>RedirectUrl\<close> as \<open>None\<close>, which is the entry
  written for \<open>ResourceNotFoundError\<close>, and an empty one as the empty string. While that
  entry is fresh, a request for the host gets the same response again without a call of
  the table service.
\<close>

theorem empty_or_absent_destination_answered_as_not_found:
  assumes "urlparse ext (url req) = Inr p"
      and "hostname = hostname_of (netloc p)"
      and "stale_or_absent ext hostname s"
      and "fst (get_table_client ext s) = Inr c"
      and "get_entity ext c hostname ''default'' = Inr entity"
      and "entity ''RedirectUrl'' = None \<or> entity ''RedirectUrl'' = Some []"
      and "ext0 = ext\<lparr>get_entity := \<lambda>c pk rk. Inl ResourceNotFoundError\<rparr>"
  shows "fst (redirect_handler ext req s) = Inr not_found_response
       \<and> fst (redirect_handler ext0 req s) = Inr not_found_response
       \<and> cache (snd (redirect_handler ext req s))
           = (cache s)(hostname \<mapsto> (entity ''RedirectUrl'', time_time ext (ticks s)))
       \<and> cache (snd (redirect_handler ext0 req s))
           = (cache s)(hostname \<mapsto> (None, time_time ext (ticks s)))
       \<and> (\<forall>s' ts. cache s' hostname = Some (entity ''RedirectUrl'', ts)
                   \<and> time_time ext (ticks s') - ts < real_of_int (CACHE_TTL ext)
             \<longrightarrow> fst (redirect_handler ext req s') = Inr not_found_response
                 \<and> store_calls (trace (snd (redirect_handler ext req s')))
                     = store_calls (trace s'))"
proof -
  have u0: "urlparse ext0 (url req) = Inr p" using assms(1,7) by simp
  have st0: "stale_or_absent ext0 hostname s"
    using assms(3,7) by (auto simp add: stale_or_absent_def split: option.splits)
  have c0: "fst (get_table_client ext0 s) = Inr c"
    using assms(4,7) by (simp add: get_table_client_get_entity_update)
  have l: "fst (try_lookup ext hostname s) = Inr (entity ''RedirectUrl'')"
    using assms(4,5) by (simp add: try_lookup_fst)
  have l0: "fst (try_lookup ext0 hostname s) = Inl ResourceNotFoundError"
    using c0 assms(7) by (simp add: try_lookup_fst)
  have t0: "time_time ext0 (ticks s) = time_time ext (ticks s)"
    using assms(7) by simp
  have r1: "fst (redirect_handler ext req s) = Inr not_found_response"
    using assms(6) l
    by (auto simp add: redirect_handler_fst [OF assms(1)] assms(2) [symmetric]
          get_redirect_url_fst [OF assms(3)])
  have r2: "fst (redirect_handler ext0 req s) = Inr not_found_response"
    using l0
    by (simp add: redirect_handler_fst [OF u0] assms(2) [symmetric]
          get_redirect_url_fst [OF st0])
  have k1: "cache (snd (redirect_handler ext req s))
           = (cache s)(hostname \<mapsto> (entity ''RedirectUrl'', time_time ext (ticks s)))"
    using l
    by (simp add: redirect_handler_state(1) [OF assms(1)] assms(2) [symmetric]
          get_redirect_url_cache [OF assms(3)])
  have k2: "cache (snd (redirect_handler ext0 req s))
           = (cache s)(hostname \<mapsto> (None, time_time ext (ticks s)))"
    using l0 t0
    by (simp add: redirect_handler_state(1) [OF u0] assms(2) [symmetric]
          get_redirect_url_cache [OF st0])
  have later: "fst (redirect_handler ext req s') = Inr not_found_response
                 \<and> store_calls (trace (snd (redirect_handler ext req s')))
                     = store_calls (trace s')"
    if "cache s' hostname = Some (entity ''RedirectUrl'', ts)"
      and "time_time ext (ticks s') - ts < real_of_int (CACHE_TTL ext)" for s' ts
  proof -
    have "\<not> stale_or_absent ext hostname s'"
      using that by (simp add: stale_or_absent_def)
    then have g: "get_redirect_url ext hostname s'
                    = (entity ''RedirectUrl'', snd (read_clock ext s'))"
      using that(1) by (simp add: get_redirect_url_cases)
    show ?thesis
      using assms(6) g
      by (auto simp add: redirect_handler_fst [OF assms(1)] assms(2) [symmetric]
            redirect_handler_state(2) [OF assms(1)] read_clock_state store_calls_append)
  qed
  show ?thesis
    using r1 r2 k1 k2 later by blast
qed

text \<open>
  An entity without \<open>RedirectUrl\<close>, and an entity whose \<open>RedirectUrl\<close> is empty.
\<close>

theorem empty_or_absent_destination_answered_as_not_found_witness:
  "(let req = example_request ''https://old.example.com/foo/bar?x=1'' ''foo/bar'';
        p = \<lparr>scheme = ''https'', netloc = ''old.example.com''\<rparr>;
        ext = example_externals (service_with [''RowKey'' \<mapsto> ''default''])
    in urlparse ext (url req) = Inr p
     \<and> ''old.example.com'' = hostname_of (netloc p)
     \<and> stale_or_absent ext ''old.example.com'' initial_state
     \<and> fst (get_table_client ext initial_state) = Inr example_client
     \<and> get_entity ext example_client ''old.example.com'' ''default''
         = Inr [''RowKey'' \<mapsto> ''default'']
     \<and> fst (redirect_handler ext req initial_state) = Inr not_found_response
     \<and> cache (snd (redirect_handler ext req initial_state)) ''old.example.com''
         = Some (None, 1000))
 \<and> (let req = example_request ''https://old.example.com/foo/bar?x=1'' ''foo/bar'';
        p = \<lparr>scheme = ''https'', netloc = ''old.example.com''\<rparr>;
        ext = example_externals (service_with [''RedirectUrl'' \<mapsto> ''''])
    in urlparse ext (url req) = Inr p
     \<and> stale_or_absent ext ''old.example.com'' initial_state
     \<and> fst (get_table_client ext initial_state) = Inr example_client
     \<and> get_entity ext example_client ''old.example.com'' ''default''
         = Inr [''RedirectUrl'' \<mapsto> '''']
     \<and> fst (redirect_handler ext req initial_state) = Inr not_found_response
     \<and> cache (snd (redirect_handler ext req initial_state)) ''old.example.com''
         = Some (Some [], 1000))"
proof -
  let ?req = "example_request ''https://old.example.com/foo/bar?x=1'' ''foo/bar''"
  let ?p = "\<lparr>scheme = ''https'', netloc = ''old.example.com''\<rparr>"
  have u: "urlparse (example_externals service) (url ?req) = Inr ?p" for service
    by (rule request_examples)
  have h: "''old.example.com'' = hostname_of (netloc ?p)"
    by (simp add: hostname_of_examples)
  have st: "stale_or_absent (example_externals service) ''old.example.com'' initial_state"
    for service
    by (rule stale_or_absent_initial)
  have cl: "fst (get_table_client (example_externals service) initial_state)
              = Inr example_client" for service
    by (rule get_table_client_example)
  have g: "get_entity (example_externals (service_with entity)) example_client
             ''old.example.com'' ''default'' = Inr entity" for entity
    by (simp add: example_defs)
  have t: "time_time (example_externals service) (ticks initial_state) = 1000" for service
    by (simp add: example_defs)
  have e1: "[''RowKey'' \<mapsto> ''default''] ''RedirectUrl'' = None
            \<or> [''RowKey'' \<mapsto> ''default''] ''RedirectUrl'' = Some []"
    by simp
  have e2: "[''RedirectUrl'' \<mapsto> ''''] ''RedirectUrl'' = None
            \<or> [''RedirectUrl'' \<mapsto> ''''] ''RedirectUrl'' = Some []"
    by simp
  let ?E1 = "[''RowKey'' \<mapsto> ''default'']"
  let ?E2 = "[''RedirectUrl'' \<mapsto> []]"
  from empty_or_absent_destination_answered_as_not_found
         [OF u [of "service_with ?E1"] h st [of "service_with ?E1"]
             cl [of "service_with ?E1"] g [of ?E1] e1 refl]
       empty_or_absent_destination_answered_as_not_found
         [OF u [of "service_with ?E2"] h st [of "service_with ?E2"]
             cl [of "service_with ?E2"] g [of ?E2] e2 refl]
  show ?thesis
    using u h st cl g by (simp add: Let_def t)
qed

end
